theory Spec2Isabelle
  imports Main
begin

unbundle bit_operations_syntax

section \<open>PIDWatcher: a synchronised handle to one operating-system process\<close>

text \<open>
  The embedding follows \<^verbatim>\<open>xbmc/utils/PIDWatcher.cpp\<close>. A watcher is a record of the
  four data members of the class; \<^verbatim>\<open>pid_t\<close> and \<^verbatim>\<open>int\<close> are modelled as \<open>int\<close>, since
  the code only compares, copies and masks them and never does arithmetic that could
  wrap. Isabelle does not admit names that end in an underscore, so the data members
  \<^verbatim>\<open>pid_\<close>, \<^verbatim>\<open>status_\<close>, \<^verbatim>\<open>has_exited_\<close>, \<^verbatim>\<open>wait_exit_\<close> and the private function
  \<^verbatim>\<open>wait_\<close> are written with a prime instead. Every member function holds \<^verbatim>\<open>pid_mutex\<close> for its whole body, so a call is one
  atomic state transformer; the only place where the lock is given up is
  \<^verbatim>\<open>pid_assigned_condition.wait(lock)\<close> inside \<^verbatim>\<open>ensure_pid\<close>. A call that reaches it
  ends in the outcome \<open>Blocked k\<close>, where \<open>k\<close> names the code that runs once the thread
  is woken, and \<open>resume k\<close> runs that code.

  What the member functions do to the outside world is kept in the field \<open>events\<close>:
  calls of \<^verbatim>\<open>kill\<close>, \<^verbatim>\<open>waitpid\<close>, \<^verbatim>\<open>CLog::Log\<close>, and of the condition variable. What the
  operating system answers is an argument of each call (\<open>os_reply\<close>), so the theorems
  hold for every behaviour of the watched process.

  The status accessors read \<^verbatim>\<open>status_\<close> right after \<^verbatim>\<open>wait()\<close> has returned; the model
  reads it in the same step. \<^verbatim>\<open>terminate_now\<close> is declared in the header and has no
  definition, so it has none here.
\<close>

subsection \<open>Data\<close>

text \<open>The two \<^verbatim>\<open>runtime_error\<close>s thrown by \<^verbatim>\<open>set_pid\<close>, named after their messages.\<close>

datatype error =
    Invalid_PID int       \<comment> \<open>"Attempt to assign an invalid PID: " + pid\<close>
  | Already_Watching      \<comment> \<open>"PIDWatcher is already watching a PID!"\<close>

datatype event =
    NotifyAll             \<comment> \<open>\<^verbatim>\<open>pid_assigned_condition.notifyAll()\<close>\<close>
  | CondWait              \<comment> \<open>\<^verbatim>\<open>pid_assigned_condition.wait(lock)\<close>\<close>
  | Kill int int          \<comment> \<open>\<^verbatim>\<open>kill(pid, sig)\<close>\<close>
  | Waitpid int           \<comment> \<open>\<^verbatim>\<open>waitpid(pid, &status_, 0)\<close>\<close>
  | LogError              \<comment> \<open>\<^verbatim>\<open>CLog::Log(LOGERROR, ...)\<close>\<close>

text \<open>The member functions that call \<^verbatim>\<open>ensure_pid\<close>, hence may be suspended in it.\<close>

datatype cont = In_get_pid | In_wait | In_exitedProperly | In_getExitStatus | In_success

datatype retval =
    Self                  \<comment> \<open>\<^verbatim>\<open>return *this\<close>\<close>
  | Flag bool
  | Num int
  | Void

datatype outcome = Returned retval | Threw error | Blocked cont

text \<open>
  The answers of the operating system to the calls made during one step: the value
  returned by \<^verbatim>\<open>kill\<close>, and the status word stored by \<^verbatim>\<open>waitpid\<close> (\<open>None\<close> when
  \<^verbatim>\<open>waitpid\<close> fails and stores nothing; the code ignores its return value).
\<close>

record os_reply =
  kill_ret :: int
  waitpid_status :: "int option"

record watcher =
  wait_exit' :: bool
  pid' :: int
  status' :: int
  has_exited' :: bool
  events :: "event list"
  waiting :: "cont list"   \<comment> \<open>threads blocked in \<^verbatim>\<open>pid_assigned_condition.wait\<close>\<close>
  woken :: "cont list"     \<comment> \<open>threads notified, not yet running again\<close>

definition SIGTERM :: int where
  "SIGTERM = 15"

text \<open>The status macros of \<^verbatim>\<open><sys/wait.h>\<close>, as glibc defines them.\<close>

definition WIFEXITED :: "int \<Rightarrow> bool" where
  "WIFEXITED st = (st AND 0x7f = 0)"

definition WEXITSTATUS :: "int \<Rightarrow> int" where
  "WEXITSTATUS st = drop_bit 8 (st AND 0xff00)"

subsection \<open>Constructors\<close>

definition PIDWatcher_empty :: watcher where
  "PIDWatcher_empty =
     \<lparr>wait_exit' = True, pid' = 0, status' = 0, has_exited' = False,
      events = [], waiting = [], woken = []\<rparr>"

definition PIDWatcher_pid :: "int \<Rightarrow> watcher" where
  "PIDWatcher_pid pid =
     \<lparr>wait_exit' = True, pid' = pid, status' = 0, has_exited' = False,
      events = [], waiting = [], woken = []\<rparr>"

subsection \<open>The condition variable\<close>

text \<open>
  Modelled from the spec: \<^verbatim>\<open>XbmcThreads::ConditionVariable\<close> (\<^verbatim>\<open>threads/Condition.h\<close>) is
  not among the sources. The spec says that the condition variable lets threads block
  until the pid becomes assigned and that assignment wakes all waiters (a broadcast).
  \<open>cond_wait k\<close> suspends the calling thread with continuation \<open>k\<close>;
  \<open>notifyAll\<close> wakes every suspended thread. A thread is woken by a notification
  only: the spec describes no other way out of the wait.
\<close>

definition cond_wait :: "cont \<Rightarrow> watcher \<Rightarrow> outcome \<times> watcher" where
  "cond_wait k s =
     (Blocked k, s\<lparr>events := events s @ [CondWait], waiting := waiting s @ [k]\<rparr>)"

definition notifyAll :: "watcher \<Rightarrow> watcher" where
  "notifyAll s =
     s\<lparr>events := events s @ [NotifyAll], woken := woken s @ waiting s, waiting := []\<rparr>"

subsection \<open>Member functions\<close>

definition has_pid :: "watcher \<Rightarrow> bool" where
  "has_pid s = (pid' s > 0)"

text \<open>
  \<^verbatim>\<open>ensure_pid\<close> waits once (an \<^verbatim>\<open>if\<close>, not a loop) when no pid is assigned. \<open>rest\<close> is
  what the caller does after \<^verbatim>\<open>ensure_pid\<close> returns, and \<open>k\<close> names it for \<open>resume\<close>.
\<close>

definition ensure_pid :: "cont \<Rightarrow> (watcher \<Rightarrow> outcome \<times> watcher) \<Rightarrow> watcher \<Rightarrow> outcome \<times> watcher" where
  "ensure_pid k rest s = (if \<not> has_pid s then cond_wait k s else rest s)"

definition running :: "os_reply \<Rightarrow> watcher \<Rightarrow> outcome \<times> watcher" where
  "running os s =
     (let s1 = (if \<not> has_exited' s \<and> has_pid s
                then s\<lparr>has_exited' := (kill_ret os \<noteq> 0), events := events s @ [Kill (pid' s) 0]\<rparr>
                else s)
      in (Returned (Flag (\<not> has_exited' s1)), s1))"

definition set_pid :: "int \<Rightarrow> watcher \<Rightarrow> outcome \<times> watcher" where
  "set_pid pid s =
     (if pid < 1 then (Threw (Invalid_PID pid), s)
      else if has_pid s \<and> pid \<noteq> pid' s then (Threw Already_Watching, s)
      else (Returned Self, notifyAll (s\<lparr>pid' := pid\<rparr>)))"

definition get_pid_rest :: "watcher \<Rightarrow> outcome \<times> watcher" where
  "get_pid_rest s = (Returned (Num (pid' s)), s)"

definition get_pid :: "watcher \<Rightarrow> outcome \<times> watcher" where
  "get_pid s = ensure_pid In_get_pid get_pid_rest s"

definition waitpid :: "os_reply \<Rightarrow> watcher \<Rightarrow> watcher" where
  "waitpid os s =
     s\<lparr>status' := (case waitpid_status os of Some st \<Rightarrow> st | None \<Rightarrow> status' s),
       events := events s @ [Waitpid (pid' s)]\<rparr>"

definition wait' :: "os_reply \<Rightarrow> watcher \<Rightarrow> outcome \<times> watcher" where
  "wait' os s =
     (let s1 = (if has_pid s \<and> \<not> has_exited' s then waitpid os s else s)
      in (Returned Self, s1\<lparr>has_exited' := True\<rparr>))"

text \<open>\<^verbatim>\<open>wait()\<close>, called on behalf of the member function \<open>k\<close>.\<close>

definition wait_as :: "cont \<Rightarrow> os_reply \<Rightarrow> watcher \<Rightarrow> outcome \<times> watcher" where
  "wait_as k os s = ensure_pid k (wait' os) s"

definition wait :: "os_reply \<Rightarrow> watcher \<Rightarrow> outcome \<times> watcher" where
  "wait os s = wait_as In_wait os s"

definition reset :: "watcher \<Rightarrow> outcome \<times> watcher" where
  "reset s = (Returned Self, s\<lparr>pid' := 0, status' := 0, has_exited' := True\<rparr>)"

definition terminate :: "os_reply \<Rightarrow> watcher \<Rightarrow> outcome \<times> watcher" where
  "terminate os s =
     (if has_pid s \<and> \<not> has_exited' s
      then (let s1 = s\<lparr>events := events s @ [Kill (pid' s) SIGTERM]\<rparr>
            in if kill_ret os \<noteq> 0
               then (Returned Self, s1\<lparr>events := events s1 @ [LogError]\<rparr>)
               else (Returned Self, s1))
      else (Returned Self, s))"

definition getWaitExit :: "watcher \<Rightarrow> outcome \<times> watcher" where
  "getWaitExit s = (Returned (Flag (wait_exit' s)), s)"

definition setWaitExit :: "bool \<Rightarrow> watcher \<Rightarrow> outcome \<times> watcher" where
  "setWaitExit b s = (Returned Self, s\<lparr>wait_exit' := b\<rparr>)"

text \<open>
  The three status accessors call \<^verbatim>\<open>wait()\<close> and then read \<^verbatim>\<open>status_\<close>: when \<^verbatim>\<open>wait()\<close>
  has returned, \<open>returning f\<close> replaces its value by \<open>f\<close> of the state.
\<close>

definition returning :: "(watcher \<Rightarrow> retval) \<Rightarrow> outcome \<times> watcher \<Rightarrow> outcome \<times> watcher" where
  "returning f r =
     (case r of (Returned v, s) \<Rightarrow> (Returned (f s), s) | (x, s) \<Rightarrow> (x, s))"

definition exitedProperly_val :: "watcher \<Rightarrow> retval" where
  "exitedProperly_val s = Flag (WIFEXITED (status' s))"

definition getExitStatus_val :: "watcher \<Rightarrow> retval" where
  "getExitStatus_val s = Num (WEXITSTATUS (status' s))"

definition success_val :: "watcher \<Rightarrow> retval" where
  "success_val s = Flag (WIFEXITED (status' s) \<and> WEXITSTATUS (status' s) = 0)"

definition exitedProperly :: "os_reply \<Rightarrow> watcher \<Rightarrow> outcome \<times> watcher" where
  "exitedProperly os s = returning exitedProperly_val (wait_as In_exitedProperly os s)"

definition getExitStatus :: "os_reply \<Rightarrow> watcher \<Rightarrow> outcome \<times> watcher" where
  "getExitStatus os s = returning getExitStatus_val (wait_as In_getExitStatus os s)"

definition success :: "os_reply \<Rightarrow> watcher \<Rightarrow> outcome \<times> watcher" where
  "success os s = returning success_val (wait_as In_success os s)"

definition has_pid_call :: "watcher \<Rightarrow> outcome \<times> watcher" where
  "has_pid_call s = (Returned (Flag (has_pid s)), s)"

text \<open>The destructor: \<^verbatim>\<open>if(has_pid() && wait_exit_) wait();\<close>\<close>

definition destroy :: "os_reply \<Rightarrow> watcher \<Rightarrow> outcome \<times> watcher" where
  "destroy os s =
     (if has_pid s \<and> wait_exit' s then returning (\<lambda>_. Void) (wait os s)
      else (Returned Void, s))"

subsection \<open>Threads: calls and resumptions\<close>

text \<open>
  The code a woken thread runs after \<^verbatim>\<open>pid_assigned_condition.wait\<close> has returned: the
  rest of the member function it was suspended in.
\<close>

fun resume :: "cont \<Rightarrow> os_reply \<Rightarrow> watcher \<Rightarrow> outcome \<times> watcher" where
  "resume In_get_pid os s = get_pid_rest s"
| "resume In_wait os s = wait' os s"
| "resume In_exitedProperly os s = returning exitedProperly_val (wait' os s)"
| "resume In_getExitStatus os s = returning getExitStatus_val (wait' os s)"
| "resume In_success os s = returning success_val (wait' os s)"

datatype member =
    M_set_pid int | M_get_pid | M_wait | M_reset | M_terminate | M_running
  | M_getWaitExit | M_setWaitExit bool | M_exitedProperly | M_getExitStatus
  | M_success | M_has_pid

fun call :: "member \<Rightarrow> os_reply \<Rightarrow> watcher \<Rightarrow> outcome \<times> watcher" where
  "call (M_set_pid pid) os s = set_pid pid s"
| "call M_get_pid os s = get_pid s"
| "call M_wait os s = wait os s"
| "call M_reset os s = reset s"
| "call M_terminate os s = terminate os s"
| "call M_running os s = running os s"
| "call M_getWaitExit os s = getWaitExit s"
| "call (M_setWaitExit b) os s = setWaitExit b s"
| "call M_exitedProperly os s = exitedProperly os s"
| "call M_getExitStatus os s = getExitStatus os s"
| "call M_success os s = success os s"
| "call M_has_pid os s = has_pid_call s"

text \<open>
  One step of the system: some thread calls a member function, or the \<open>i\<close>-th woken
  thread gets the lock back and finishes the member function it was suspended in.
\<close>

datatype step = Call member os_reply | Resume nat os_reply

fun exec :: "step \<Rightarrow> watcher \<Rightarrow> watcher" where
  "exec (Call m os) s = snd (call m os s)"
| "exec (Resume i os) s =
     (if i < length (woken s)
      then snd (resume (woken s ! i) os (s\<lparr>woken := take i (woken s) @ drop (Suc i) (woken s)\<rparr>))
      else s)"

fun run :: "step list \<Rightarrow> watcher \<Rightarrow> watcher" where
  "run [] s = s"
| "run (st # sts) s = run sts (exec st s)"

text \<open>A step that assigns a pid: a call of \<^verbatim>\<open>set_pid\<close> with a valid identifier.\<close>

fun assigns :: "step \<Rightarrow> bool" where
  "assigns (Call (M_set_pid pid) os) = (pid \<ge> 1)"
| "assigns _ = False"

fun is_reset :: "step \<Rightarrow> bool" where
  "is_reset (Call M_reset os) = True"
| "is_reset _ = False"

text \<open>How often \<^verbatim>\<open>waitpid\<close> has been called.\<close>

definition reaps :: "watcher \<Rightarrow> nat" where
  "reaps s = length (filter (\<lambda>e. case e of Waitpid p \<Rightarrow> True | _ \<Rightarrow> False) (events s))"

text \<open>
  Two invariants of the reachable states. While a pid is assigned no thread is suspended
  on the condition variable, and \<^verbatim>\<open>waitpid\<close> has been called at most once, and only if
  the exited flag is set.
\<close>

definition no_waiter :: "watcher \<Rightarrow> bool" where
  "no_waiter s = (has_pid s \<longrightarrow> waiting s = [])"

definition reaped_once :: "watcher \<Rightarrow> bool" where
  "reaped_once s = (if has_exited' s then reaps s \<le> 1 else reaps s = 0)"

text \<open>Two answers of the operating system, for the concrete runs below.\<close>

definition os_alive :: os_reply where
  "os_alive = \<lparr>kill_ret = 0, waitpid_status = Some 0\<rparr>"

definition os_gone :: os_reply where
  "os_gone = \<lparr>kill_ret = - 1, waitpid_status = None\<rparr>"

section \<open>Properties\<close>

lemmas ctor_defs = PIDWatcher_empty_def PIDWatcher_pid_def

lemmas member_defs =
  set_pid_def get_pid_def get_pid_rest_def ensure_pid_def cond_wait_def notifyAll_def
  wait_def wait_as_def wait'_def waitpid_def reset_def terminate_def running_def
  getWaitExit_def setWaitExit_def exitedProperly_def getExitStatus_def success_def
  has_pid_call_def returning_def

subsection \<open>Single steps\<close>

lemma call_has_exited: "has_exited' s \<Longrightarrow> has_exited' (snd (call m os s))"
  by (cases m) (simp_all add: member_defs Let_def)

lemma resume_has_exited: "has_exited' s \<Longrightarrow> has_exited' (snd (resume k os s))"
  by (cases k) (simp_all add: member_defs Let_def)

lemma exec_has_exited: "has_exited' s \<Longrightarrow> has_exited' (exec st s)"
  by (cases st) (simp_all add: call_has_exited resume_has_exited)

lemma run_has_exited: "has_exited' s \<Longrightarrow> has_exited' (run sts s)"
  by (induction sts arbitrary: s) (simp_all add: exec_has_exited)

lemma destroy_has_exited: "has_exited' s \<Longrightarrow> has_exited' (snd (destroy os s))"
  by (simp add: destroy_def member_defs Let_def)

lemma resume_pid: "pid' (snd (resume k os s)) = pid' s"
  by (cases k) (simp_all add: member_defs Let_def)

lemma call_pid_kept:
  "has_pid s \<Longrightarrow> m \<noteq> M_reset \<Longrightarrow> pid' (snd (call m os s)) = pid' s"
  by (cases m) (simp_all add: member_defs Let_def)

lemma exec_pid_kept: "has_pid s \<Longrightarrow> \<not> is_reset st \<Longrightarrow> pid' (exec st s) = pid' s"
proof (cases st)
  case (Call m os)
  assume "has_pid s" "\<not> is_reset st"
  with Call have "m \<noteq> M_reset" by auto
  with \<open>has_pid s\<close> Call show ?thesis by (simp add: call_pid_kept)
next
  case (Resume i os)
  then show ?thesis by (simp add: resume_pid)
qed

lemma run_pid_kept:
  "has_pid s \<Longrightarrow> \<forall>st\<in>set sts. \<not> is_reset st \<Longrightarrow> pid' (run sts s) = pid' s"
proof (induction sts arbitrary: s)
  case Nil
  then show ?case by simp
next
  case (Cons st sts)
  have keep: "pid' (exec st s) = pid' s"
    using Cons.prems by (simp add: exec_pid_kept)
  then have "has_pid (exec st s)"
    using Cons.prems(1) by (simp add: has_pid_def)
  then have "pid' (run sts (exec st s)) = pid' (exec st s)"
    using Cons.IH Cons.prems(2) by simp
  with keep show ?case by simp
qed

lemma call_no_pid_kept:
  "\<not> has_pid s \<Longrightarrow> \<not> assigns (Call m os) \<Longrightarrow> \<not> has_pid (snd (call m os s))"
  by (cases m) (simp_all add: member_defs Let_def has_pid_def)

lemma exec_no_pid_kept: "\<not> has_pid s \<Longrightarrow> \<not> assigns st \<Longrightarrow> \<not> has_pid (exec st s)"
proof (cases st)
  case (Call m os)
  assume "\<not> has_pid s" "\<not> assigns st"
  with Call show ?thesis using call_no_pid_kept by simp
next
  case (Resume i os)
  assume "\<not> has_pid s"
  with Resume show ?thesis by (simp add: has_pid_def resume_pid)
qed

lemma run_no_pid_kept:
  "\<not> has_pid s \<Longrightarrow> \<forall>st\<in>set sts. \<not> assigns st \<Longrightarrow> \<not> has_pid (run sts s)"
  by (induction sts arbitrary: s) (simp_all add: exec_no_pid_kept)

subsection \<open>No thread waits while a pid is assigned\<close>

lemma call_no_waiter: "no_waiter s \<Longrightarrow> no_waiter (snd (call m os s))"
  by (cases m) (simp_all add: no_waiter_def has_pid_def member_defs Let_def)

lemma resume_waiting: "waiting (snd (resume k os s)) = waiting s"
  by (cases k) (simp_all add: member_defs Let_def)

lemma exec_no_waiter: "no_waiter s \<Longrightarrow> no_waiter (exec st s)"
proof (cases st)
  case (Call m os)
  assume "no_waiter s"
  with Call show ?thesis by (simp add: call_no_waiter)
next
  case (Resume i os)
  assume "no_waiter s"
  with Resume show ?thesis
    by (simp add: no_waiter_def has_pid_def resume_pid resume_waiting)
qed

lemma run_no_waiter: "no_waiter s \<Longrightarrow> no_waiter (run sts s)"
  by (induction sts arbitrary: s) (simp_all add: exec_no_waiter)

lemma PIDWatcher_pid_no_waiter: "no_waiter (PIDWatcher_pid p)"
  by (simp add: no_waiter_def PIDWatcher_pid_def)

lemma PIDWatcher_empty_pid: "PIDWatcher_empty = PIDWatcher_pid 0"
  by (simp add: PIDWatcher_empty_def PIDWatcher_pid_def)

subsection \<open>waitpid is guarded by the exited flag\<close>

lemma call_reaped_once: "reaped_once s \<Longrightarrow> reaped_once (snd (call m os s))"
  unfolding reaped_once_def reaps_def
  by (cases m) (auto simp: member_defs Let_def split: if_splits)

lemma resume_reaped_once: "reaped_once s \<Longrightarrow> reaped_once (snd (resume k os s))"
  unfolding reaped_once_def reaps_def
  by (cases k) (auto simp: member_defs Let_def split: if_splits)

lemma reaped_once_woken: "reaped_once (s\<lparr>woken := w\<rparr>) = reaped_once s"
  by (simp add: reaped_once_def reaps_def)

lemma exec_reaped_once: "reaped_once s \<Longrightarrow> reaped_once (exec st s)"
proof (cases st)
  case (Call m os)
  assume "reaped_once s"
  with Call show ?thesis by (simp add: call_reaped_once)
next
  case (Resume i os)
  assume "reaped_once s"
  then have "reaped_once (s\<lparr>woken := take i (woken s) @ drop (Suc i) (woken s)\<rparr>)"
    by (simp add: reaped_once_woken)
  with Resume \<open>reaped_once s\<close> show ?thesis by (simp add: resume_reaped_once)
qed

lemma run_reaped_once: "reaped_once s \<Longrightarrow> reaped_once (run sts s)"
  by (induction sts arbitrary: s) (simp_all add: exec_reaped_once)

lemma destroy_reaped_once: "reaped_once s \<Longrightarrow> reaped_once (snd (destroy os s))"
  unfolding reaped_once_def reaps_def
  by (auto simp: destroy_def member_defs Let_def split: if_splits)

lemma PIDWatcher_pid_reaped_once: "reaped_once (PIDWatcher_pid p)"
  by (simp add: reaped_once_def reaps_def PIDWatcher_pid_def)

lemma reaped_once_le: "reaped_once s \<Longrightarrow> reaps s \<le> 1"
  by (simp add: reaped_once_def split: if_splits)

subsection \<open>A non-positive stored pid counts as no pid\<close>

lemma call_unassigned_alike:
  assumes "p \<le> 0" and "\<not> has_pid s"
  shows "fst (call m os (s\<lparr>pid' := p\<rparr>)) = fst (call m os s) \<and>
         snd (call m os (s\<lparr>pid' := p\<rparr>)) =
           (if is_reset (Call m os) \<or> assigns (Call m os) then snd (call m os s)
            else (snd (call m os s))\<lparr>pid' := p\<rparr>)"
  using assms
  by (cases m) (simp_all add: member_defs has_pid_def Let_def)

section \<open>The claims\<close>

subsection \<open>C1: the stored pid\<close>

text \<open>
  C1, counterexample. The claim says that no operation, \<^verbatim>\<open>reset()\<close> included, replaces
  or discards an assigned pid. After \<^verbatim>\<open>set_pid(5)\<close> on an empty watcher the pid is 5;
  \<^verbatim>\<open>reset()\<close> then stores 0.
\<close>

theorem reset_discards_pid:
  "has_pid (run [Call (M_set_pid 5) os_alive] PIDWatcher_empty) \<and>
   pid' (run [Call (M_set_pid 5) os_alive] PIDWatcher_empty) = 5 \<and>
   pid' (run [Call (M_set_pid 5) os_alive, Call M_reset os_alive] PIDWatcher_empty) = 0"
  by (simp add: ctor_defs has_pid_def member_defs)

text \<open>
  C1, as amended. Once a pid is assigned (\<^verbatim>\<open>has_pid()\<close> holds), the stored pid stays the
  same and stays assigned through every sequence of calls and resumptions of suspended
  threads in which \<^verbatim>\<open>reset()\<close> does not occur.
\<close>

theorem pid_fixed_until_reset:
  assumes "has_pid s" and "\<forall>st\<in>set sts. \<not> is_reset st"
  shows "pid' (run sts s) = pid' s \<and> has_pid (run sts s)"
proof -
  have "pid' (run sts s) = pid' s"
    using assms by (rule run_pid_kept)
  moreover from this assms(1) have "has_pid (run sts s)"
    by (simp add: has_pid_def)
  ultimately show ?thesis ..
qed

text \<open>
  C1, witness: a watcher constructed with pid 5 keeps it through \<^verbatim>\<open>set_pid(5)\<close>,
  \<^verbatim>\<open>wait()\<close>, a rejected \<^verbatim>\<open>set_pid(6)\<close> and \<^verbatim>\<open>running()\<close>.
\<close>

theorem pid_fixed_until_reset_witness:
  "has_pid (PIDWatcher_pid 5) \<and>
   list_all (\<lambda>st. \<not> is_reset st)
     [Call (M_set_pid 5) os_alive, Call M_wait os_alive, Call (M_set_pid 6) os_alive,
      Call M_running os_gone] \<and>
   pid' (run [Call (M_set_pid 5) os_alive, Call M_wait os_alive, Call (M_set_pid 6) os_alive,
              Call M_running os_gone] (PIDWatcher_pid 5)) = pid' (PIDWatcher_pid 5) \<and>
   has_pid (run [Call (M_set_pid 5) os_alive, Call M_wait os_alive, Call (M_set_pid 6) os_alive,
                 Call M_running os_gone] (PIDWatcher_pid 5))"
proof -
  let ?sts = "[Call (M_set_pid 5) os_alive, Call M_wait os_alive, Call (M_set_pid 6) os_alive,
               Call M_running os_gone]"
  have h1: "has_pid (PIDWatcher_pid 5)"
    by (simp add: has_pid_def PIDWatcher_pid_def)
  have h2: "\<forall>st\<in>set ?sts. \<not> is_reset st"
    by simp
  have h2': "list_all (\<lambda>st. \<not> is_reset st) ?sts"
    by simp
  from h1 h2' pid_fixed_until_reset [OF h1 h2] show ?thesis
    by blast
qed

subsection \<open>C2: assigning the same pid again\<close>

text \<open>
  C2, counterexample. The claim says that the second \<^verbatim>\<open>set_pid(p)\<close> does not notify the
  condition variable again. \<^verbatim>\<open>set_pid\<close> calls \<^verbatim>\<open>notifyAll()\<close> on every successful
  return: after two calls of \<^verbatim>\<open>set_pid(5)\<close> there are two notifications.
\<close>

theorem second_set_pid_notifies:
  "has_pid (snd (set_pid 5 PIDWatcher_empty)) \<and>
   pid' (snd (set_pid 5 PIDWatcher_empty)) = 5 \<and>
   events (snd (set_pid 5 PIDWatcher_empty)) = [NotifyAll] \<and>
   fst (set_pid 5 (snd (set_pid 5 PIDWatcher_empty))) = Returned Self \<and>
   events (snd (set_pid 5 (snd (set_pid 5 PIDWatcher_empty)))) = [NotifyAll, NotifyAll]"
  by (simp add: ctor_defs has_pid_def member_defs)

text \<open>
  C2, as amended. For every watcher reached from a constructor by calls and resumptions
  that has pid \<open>p\<close> assigned, \<^verbatim>\<open>set_pid(p)\<close> succeeds and leaves the pid, the status, both
  flags and the sets of suspended and woken threads as they are; it does call
  \<^verbatim>\<open>notifyAll()\<close> again, which wakes no thread, since none is suspended while a pid is
  assigned.
\<close>

theorem set_pid_same_pid:
  assumes "s = run sts (PIDWatcher_pid p0)" and "has_pid s"
  shows "set_pid (pid' s) s = (Returned Self, s\<lparr>events := events s @ [NotifyAll]\<rparr>)"
proof -
  have "no_waiter s"
    using assms(1) by (simp add: run_no_waiter PIDWatcher_pid_no_waiter)
  with assms(2) have "waiting s = []"
    by (simp add: no_waiter_def)
  with assms(2) show ?thesis
    by (simp add: set_pid_def notifyAll_def has_pid_def)
qed

text \<open>
  C2, witness: one thread is suspended in \<^verbatim>\<open>get_pid()\<close>, \<^verbatim>\<open>set_pid(5)\<close> wakes it, and a
  second \<^verbatim>\<open>set_pid(5)\<close> only adds a notification.
\<close>

theorem set_pid_same_pid_witness:
  "run [Call M_get_pid os_alive, Call (M_set_pid 5) os_alive] PIDWatcher_empty =
     run [Call M_get_pid os_alive, Call (M_set_pid 5) os_alive] (PIDWatcher_pid 0) \<and>
   has_pid (run [Call M_get_pid os_alive, Call (M_set_pid 5) os_alive] PIDWatcher_empty) \<and>
   set_pid 5 (run [Call M_get_pid os_alive, Call (M_set_pid 5) os_alive] PIDWatcher_empty) =
     (Returned Self,
      \<lparr>wait_exit' = True, pid' = 5, status' = 0, has_exited' = False,
       events = [CondWait, NotifyAll, NotifyAll], waiting = [], woken = [In_get_pid]\<rparr>)"
proof -
  let ?s = "run [Call M_get_pid os_alive, Call (M_set_pid 5) os_alive] PIDWatcher_empty"
  have val: "?s = \<lparr>wait_exit' = True, pid' = 5, status' = 0, has_exited' = False,
       events = [CondWait, NotifyAll], waiting = [], woken = [In_get_pid]\<rparr>"
    by (simp add: ctor_defs has_pid_def member_defs)
  have h1: "?s = run [Call M_get_pid os_alive, Call (M_set_pid 5) os_alive] (PIDWatcher_pid 0)"
    by (simp add: PIDWatcher_empty_pid)
  have h2: "has_pid ?s"
    unfolding val by (simp add: has_pid_def)
  from set_pid_same_pid [OF h1 h2] have "set_pid (pid' ?s) ?s = (Returned Self, ?s\<lparr>events := events ?s @ [NotifyAll]\<rparr>)" .
  then have "set_pid 5 ?s = (Returned Self,
      \<lparr>wait_exit' = True, pid' = 5, status' = 0, has_exited' = False,
       events = [CondWait, NotifyAll, NotifyAll], waiting = [], woken = [In_get_pid]\<rparr>)"
    unfolding val by simp
  with h1 h2 show ?thesis by blast
qed

subsection \<open>C3: assigning a different pid\<close>

text \<open>
  C3, counterexample. The claim says that on a watcher with pid \<open>p\<close> every \<open>q \<noteq> p\<close> is
  refused with the already-watching error. The check \<^verbatim>\<open>pid < 1\<close> comes first: on a
  watcher with pid 5, \<^verbatim>\<open>set_pid(-1)\<close> throws the invalid-PID error instead.
\<close>

theorem invalid_pid_checked_first:
  "has_pid (PIDWatcher_pid 5) \<and> - 1 \<noteq> pid' (PIDWatcher_pid 5) \<and>
   set_pid (- 1) (PIDWatcher_pid 5) = (Threw (Invalid_PID (- 1)), PIDWatcher_pid 5) \<and>
   fst (set_pid (- 1) (PIDWatcher_pid 5)) \<noteq> Threw Already_Watching"
  by (simp add: PIDWatcher_pid_def has_pid_def set_pid_def)

text \<open>
  C3, as amended. For every watcher with pid \<open>p\<close> assigned and every valid identifier
  \<open>q > 0\<close> with \<open>q \<noteq> p\<close>, \<^verbatim>\<open>set_pid(q)\<close> throws the already-watching error and leaves the
  state as it was: afterwards \<^verbatim>\<open>get_pid()\<close> returns \<open>p\<close> without blocking and
  \<^verbatim>\<open>has_pid()\<close> is true.
\<close>

theorem set_pid_other_pid:
  assumes "has_pid s" and "q \<noteq> pid' s" and "0 < q"
  shows "set_pid q s = (Threw Already_Watching, s) \<and>
         get_pid (snd (set_pid q s)) = (Returned (Num (pid' s)), s) \<and>
         has_pid_call (snd (set_pid q s)) = (Returned (Flag True), s)"
proof -
  have thrown: "set_pid q s = (Threw Already_Watching, s)"
    using assms by (simp add: set_pid_def)
  have "get_pid s = (Returned (Num (pid' s)), s)"
    using assms(1) by (simp add: get_pid_def ensure_pid_def get_pid_rest_def)
  moreover have "has_pid_call s = (Returned (Flag True), s)"
    using assms(1) by (simp add: has_pid_call_def)
  ultimately show ?thesis
    by (simp add: thrown)
qed

text \<open>C3, witness: \<^verbatim>\<open>set_pid(6)\<close> on a watcher constructed with pid 5.\<close>

theorem set_pid_other_pid_witness:
  "has_pid (PIDWatcher_pid 5) \<and> 6 \<noteq> pid' (PIDWatcher_pid 5) \<and> (0::int) < 6 \<and>
   set_pid 6 (PIDWatcher_pid 5) = (Threw Already_Watching, PIDWatcher_pid 5) \<and>
   get_pid (snd (set_pid 6 (PIDWatcher_pid 5))) = (Returned (Num 5), PIDWatcher_pid 5) \<and>
   has_pid_call (snd (set_pid 6 (PIDWatcher_pid 5))) = (Returned (Flag True), PIDWatcher_pid 5)"
proof -
  have h1: "has_pid (PIDWatcher_pid 5)"
    by (simp add: has_pid_def PIDWatcher_pid_def)
  have h2: "6 \<noteq> pid' (PIDWatcher_pid 5)"
    by (simp add: PIDWatcher_pid_def)
  have h3: "(0::int) < 6"
    by simp
  have p: "pid' (PIDWatcher_pid 5) = 5"
    by (simp add: PIDWatcher_pid_def)
  from set_pid_other_pid [OF h1 h2 h3] h1 h2 h3 show ?thesis
    unfolding p by blast
qed

subsection \<open>C4: assigning an invalid pid\<close>

text \<open>
  C4, counterexample. The claim says that after \<^verbatim>\<open>set_pid(p)\<close> with \<open>p \<le> 0\<close> the watcher
  is unassigned with no pid stored, whatever its state before. On a watcher that holds
  pid 7 the call throws and leaves the watcher as it was, that is, with pid 7 assigned.
\<close>

theorem invalid_pid_keeps_assigned:
  "set_pid 0 (PIDWatcher_pid 7) = (Threw (Invalid_PID 0), PIDWatcher_pid 7) \<and>
   has_pid (snd (set_pid 0 (PIDWatcher_pid 7))) \<and>
   pid' (snd (set_pid 0 (PIDWatcher_pid 7))) = 7"
  by (simp add: PIDWatcher_pid_def has_pid_def set_pid_def)

text \<open>
  C4, as amended. For every \<open>p \<le> 0\<close> and every state of the watcher, \<^verbatim>\<open>set_pid(p)\<close>
  throws the invalid-PID error and leaves the watcher exactly as it was: nothing is
  stored, no thread is woken, the condition variable is not notified; a watcher without
  a pid stays without one and a watcher with a pid keeps it.
\<close>

theorem set_pid_invalid:
  assumes "p \<le> 0"
  shows "set_pid p s = (Threw (Invalid_PID p), s) \<and>
         has_pid (snd (set_pid p s)) = has_pid s \<and>
         events (snd (set_pid p s)) = events s \<and>
         woken (snd (set_pid p s)) = woken s"
  using assms by (simp add: set_pid_def)

text \<open>C4, witness: \<^verbatim>\<open>set_pid(-3)\<close> on an empty watcher, which stays unassigned.\<close>

theorem set_pid_invalid_witness:
  "(- 3::int) \<le> 0 \<and>
   set_pid (- 3) PIDWatcher_empty = (Threw (Invalid_PID (- 3)), PIDWatcher_empty) \<and>
   has_pid (snd (set_pid (- 3) PIDWatcher_empty)) = has_pid PIDWatcher_empty \<and>
   \<not> has_pid PIDWatcher_empty \<and>
   events (snd (set_pid (- 3) PIDWatcher_empty)) = events PIDWatcher_empty \<and>
   woken (snd (set_pid (- 3) PIDWatcher_empty)) = woken PIDWatcher_empty"
proof -
  have h: "(- 3::int) \<le> 0"
    by simp
  have u: "\<not> has_pid PIDWatcher_empty"
    by (simp add: has_pid_def PIDWatcher_empty_def)
  from set_pid_invalid [OF h, of PIDWatcher_empty] h u show ?thesis
    by blast
qed

subsection \<open>C5: the exited flag is monotonic\<close>

text \<open>
  C5. If \<^verbatim>\<open>has_exited_\<close> is true, it is still true after every call of a member
  function (whether it returns, throws or suspends), after a suspended thread has
  finished its member function, after the destructor, and hence after every sequence
  of calls and resumptions.
\<close>

theorem has_exited_monotonic:
  assumes "has_exited' s"
  shows "has_exited' (snd (call m os s)) \<and> has_exited' (snd (resume k os s)) \<and>
         has_exited' (snd (destroy os s)) \<and> has_exited' (run sts s)"
  using assms
  by (simp add: call_has_exited resume_has_exited destroy_has_exited run_has_exited)

text \<open>
  C5, witness: a watcher for pid 5 whose liveness probe has failed stays exited through
  further probes that would succeed, \<^verbatim>\<open>wait()\<close>, \<^verbatim>\<open>reset()\<close> and a new assignment.
\<close>

theorem has_exited_monotonic_witness:
  "has_exited' (snd (running os_gone (PIDWatcher_pid 5))) \<and>
   has_exited' (snd (call (M_set_pid 5) os_alive (snd (running os_gone (PIDWatcher_pid 5))))) \<and>
   has_exited' (snd (resume In_get_pid os_alive (snd (running os_gone (PIDWatcher_pid 5))))) \<and>
   has_exited' (snd (destroy os_alive (snd (running os_gone (PIDWatcher_pid 5))))) \<and>
   has_exited' (run [Call M_running os_alive, Call M_wait os_alive, Call M_reset os_alive,
                     Call (M_set_pid 6) os_alive, Call M_running os_alive]
                  (snd (running os_gone (PIDWatcher_pid 5))))"
proof -
  have h: "has_exited' (snd (running os_gone (PIDWatcher_pid 5)))"
    by (simp add: running_def PIDWatcher_pid_def has_pid_def os_gone_def)
  from h has_exited_monotonic [OF h, of "M_set_pid 5" os_alive In_get_pid
      "[Call M_running os_alive, Call M_wait os_alive, Call M_reset os_alive,
        Call (M_set_pid 6) os_alive, Call M_running os_alive]"]
  show ?thesis
    by blast
qed

subsection \<open>C6: waiting on an exited watcher\<close>

text \<open>
  C6, counterexample. The claim says that \<^verbatim>\<open>wait()\<close> returns immediately on every
  watcher whose exited flag is set. After \<^verbatim>\<open>reset()\<close> the flag is set and no pid is
  assigned, and \<^verbatim>\<open>wait()\<close> suspends in \<^verbatim>\<open>ensure_pid\<close> on the condition variable.
\<close>

theorem wait_blocks_after_reset:
  "has_exited' (snd (reset PIDWatcher_empty)) \<and>
   fst (wait os_alive (snd (reset PIDWatcher_empty))) = Blocked In_wait \<and>
   events (snd (wait os_alive (snd (reset PIDWatcher_empty)))) = [CondWait]"
  by (simp add: PIDWatcher_empty_def has_pid_def member_defs)

text \<open>
  C6, as amended. On a watcher whose exited flag is set, \<^verbatim>\<open>wait()\<close> returns immediately
  with the state unchanged if a pid is assigned, and suspends on the condition variable
  if none is; in both cases \<^verbatim>\<open>status_\<close> is the same before and after and \<^verbatim>\<open>waitpid\<close> is
  not called. Over every sequence of calls and resumptions from a constructor, with the
  destructor at its end, \<^verbatim>\<open>waitpid\<close> is called at most once.
\<close>

theorem wait_on_exited:
  assumes "has_exited' s"
  shows "(if has_pid s then wait os s = (Returned Self, s)
          else wait os s = cond_wait In_wait s) \<and>
         status' (snd (wait os s)) = status' s \<and>
         reaps (snd (wait os s)) = reaps s \<and>
         reaps (run sts (PIDWatcher_pid p0)) \<le> 1 \<and>
         reaps (snd (destroy os (run sts (PIDWatcher_pid p0)))) \<le> 1"
proof -
  have ret: "wait os s = (Returned Self, s)" if "has_pid s"
    using that assms by (simp add: wait_def wait_as_def ensure_pid_def wait'_def)
  have blk: "wait os s = cond_wait In_wait s" if "\<not> has_pid s"
    using that by (simp add: wait_def wait_as_def ensure_pid_def)
  have st: "status' (snd (wait os s)) = status' s"
    using assms by (simp add: wait_def wait_as_def ensure_pid_def wait'_def cond_wait_def)
  have rp: "reaps (snd (wait os s)) = reaps s"
    using assms by (simp add: reaps_def wait_def wait_as_def ensure_pid_def wait'_def cond_wait_def)
  have inv: "reaped_once (run sts (PIDWatcher_pid p0))"
    by (simp add: run_reaped_once PIDWatcher_pid_reaped_once)
  have r1: "reaps (run sts (PIDWatcher_pid p0)) \<le> 1"
    using inv by (rule reaped_once_le)
  have r2: "reaps (snd (destroy os (run sts (PIDWatcher_pid p0)))) \<le> 1"
    using inv by (intro reaped_once_le destroy_reaped_once)
  from ret blk st rp r1 r2 show ?thesis
    by (cases "has_pid s") simp_all
qed

text \<open>
  C6, witness: after \<^verbatim>\<open>set_pid(5)\<close> and a first \<^verbatim>\<open>wait()\<close>, which reaps, a second
  \<^verbatim>\<open>wait()\<close> returns the same state.
\<close>

theorem wait_on_exited_witness:
  "has_exited' (run [Call (M_set_pid 5) os_alive, Call M_wait os_alive] PIDWatcher_empty) \<and>
   has_pid (run [Call (M_set_pid 5) os_alive, Call M_wait os_alive] PIDWatcher_empty) \<and>
   reaps (run [Call (M_set_pid 5) os_alive, Call M_wait os_alive] PIDWatcher_empty) = 1 \<and>
   wait os_gone (run [Call (M_set_pid 5) os_alive, Call M_wait os_alive] PIDWatcher_empty) =
     (Returned Self, run [Call (M_set_pid 5) os_alive, Call M_wait os_alive] PIDWatcher_empty) \<and>
   reaps (run [Call (M_set_pid 5) os_alive, Call M_wait os_alive, Call M_wait os_gone]
            (PIDWatcher_pid 0)) \<le> 1"
proof -
  let ?s = "run [Call (M_set_pid 5) os_alive, Call M_wait os_alive] PIDWatcher_empty"
  have val: "?s = \<lparr>wait_exit' = True, pid' = 5, status' = 0, has_exited' = True,
       events = [NotifyAll, Waitpid 5], waiting = [], woken = []\<rparr>"
    by (simp add: PIDWatcher_empty_def os_alive_def has_pid_def member_defs)
  have h: "has_exited' ?s"
    unfolding val by simp
  have p: "has_pid ?s"
    unfolding val by (simp add: has_pid_def)
  have r: "reaps ?s = 1"
    unfolding val by (simp add: reaps_def)
  from wait_on_exited [OF h, of os_gone "[Call (M_set_pid 5) os_alive, Call M_wait os_alive, Call M_wait os_gone]" 0]
  have "wait os_gone ?s = (Returned Self, ?s)"
    and "reaps (run [Call (M_set_pid 5) os_alive, Call M_wait os_alive, Call M_wait os_gone]
            (PIDWatcher_pid 0)) \<le> 1"
    using p by simp_all
  with h p r show ?thesis
    by blast
qed

subsection \<open>C7: probing a watcher without a pid\<close>

text \<open>
  C7, counterexample. The claim says that \<^verbatim>\<open>running()\<close> returns true on every watcher
  without a pid. After \<^verbatim>\<open>reset()\<close> there is no pid and \<^verbatim>\<open>running()\<close> returns false.
\<close>

theorem running_false_after_reset:
  "\<not> has_pid (snd (reset PIDWatcher_empty)) \<and>
   fst (running os_alive (snd (reset PIDWatcher_empty))) = Returned (Flag False)"
  by (simp add: PIDWatcher_empty_def has_pid_def reset_def running_def)

text \<open>
  C7, as amended. On a watcher without a pid \<^verbatim>\<open>running()\<close> returns the negation of the
  exited flag, true as long as the watcher has not been marked exited and false after
  \<^verbatim>\<open>reset()\<close>; it returns at once and leaves the state unchanged, so it neither waits on
  the condition variable nor calls \<^verbatim>\<open>kill\<close>.
\<close>

theorem running_without_pid:
  assumes "\<not> has_pid s"
  shows "running os s = (Returned (Flag (\<not> has_exited' s)), s)"
  using assms by (simp add: running_def)

text \<open>C7, witness: \<^verbatim>\<open>running()\<close> on an empty watcher returns true.\<close>

theorem running_without_pid_witness:
  "\<not> has_pid PIDWatcher_empty \<and> \<not> has_exited' PIDWatcher_empty \<and>
   running os_gone PIDWatcher_empty = (Returned (Flag True), PIDWatcher_empty)"
proof -
  have h: "\<not> has_pid PIDWatcher_empty"
    by (simp add: has_pid_def PIDWatcher_empty_def)
  have e: "\<not> has_exited' PIDWatcher_empty"
    by (simp add: PIDWatcher_empty_def)
  from running_without_pid [OF h, of os_gone] e
  have "running os_gone PIDWatcher_empty = (Returned (Flag True), PIDWatcher_empty)"
    by simp
  with h e show ?thesis
    by blast
qed

subsection \<open>C8: destruction after reset\<close>

text \<open>
  C8. After \<^verbatim>\<open>reset()\<close>, followed by any calls and resumptions none of which assigns a
  pid, the destructor does not call \<^verbatim>\<open>wait()\<close>: it returns with the state unchanged, so
  without \<^verbatim>\<open>waitpid\<close> and without waiting on the condition variable. This holds for
  every state before the \<^verbatim>\<open>reset()\<close>, also with a pid assigned, and for either value of
  \<^verbatim>\<open>wait_exit_\<close>.
\<close>

theorem destroy_after_reset:
  assumes "\<forall>st\<in>set sts. \<not> assigns st"
  shows "destroy os (run sts (snd (reset s))) = (Returned Void, run sts (snd (reset s)))"
proof -
  have "\<not> has_pid (snd (reset s))"
    by (simp add: reset_def has_pid_def)
  then have "\<not> has_pid (run sts (snd (reset s)))"
    using assms by (rule run_no_pid_kept)
  then show ?thesis
    by (simp add: destroy_def)
qed

text \<open>
  C8, witness: a watcher for pid 5 with \<^verbatim>\<open>wait_exit_\<close> true is reset, probed, given an
  invalid pid and asked to terminate; its destructor returns without an event.
\<close>

theorem destroy_after_reset_witness:
  "list_all (\<lambda>st. \<not> assigns st)
     [Call M_running os_alive, Call (M_set_pid 0) os_alive, Call M_terminate os_alive] \<and>
   has_pid (PIDWatcher_pid 5) \<and> wait_exit' (PIDWatcher_pid 5) \<and>
   destroy os_alive
     (run [Call M_running os_alive, Call (M_set_pid 0) os_alive, Call M_terminate os_alive]
        (snd (reset (PIDWatcher_pid 5)))) =
   (Returned Void,
    \<lparr>wait_exit' = True, pid' = 0, status' = 0, has_exited' = True,
     events = [], waiting = [], woken = []\<rparr>)"
proof -
  let ?sts = "[Call M_running os_alive, Call (M_set_pid 0) os_alive, Call M_terminate os_alive]"
  have h: "\<forall>st\<in>set ?sts. \<not> assigns st"
    by simp
  have h': "list_all (\<lambda>st. \<not> assigns st) ?sts"
    by simp
  have a: "has_pid (PIDWatcher_pid 5)" "wait_exit' (PIDWatcher_pid 5)"
    by (simp_all add: has_pid_def PIDWatcher_pid_def)
  have val: "run ?sts (snd (reset (PIDWatcher_pid 5))) =
    \<lparr>wait_exit' = True, pid' = 0, status' = 0, has_exited' = True,
     events = [], waiting = [], woken = []\<rparr>"
    by (simp add: PIDWatcher_pid_def has_pid_def member_defs)
  from destroy_after_reset [OF h, of os_alive "PIDWatcher_pid 5"]
  have "destroy os_alive (run ?sts (snd (reset (PIDWatcher_pid 5)))) =
    (Returned Void,
    \<lparr>wait_exit' = True, pid' = 0, status' = 0, has_exited' = True,
     events = [], waiting = [], woken = []\<rparr>)"
    unfolding val .
  with h' a show ?thesis
    by blast
qed

subsection \<open>C9: assignment after reset\<close>

text \<open>
  C9. After \<^verbatim>\<open>reset()\<close>, \<^verbatim>\<open>set_pid(p)\<close> with \<open>p > 0\<close> succeeds and the watcher has pid
  \<open>p\<close>, yet the exited flag stays set and \<^verbatim>\<open>status_\<close> stays 0: \<^verbatim>\<open>running()\<close> returns
  false without probing and \<^verbatim>\<open>wait()\<close> returns immediately without \<^verbatim>\<open>waitpid\<close>, both
  leaving the state unchanged.
\<close>

theorem set_pid_after_reset:
  assumes "0 < p"
  shows "let s2 = snd (set_pid p (snd (reset s))) in
           fst (set_pid p (snd (reset s))) = Returned Self \<and>
           has_pid s2 \<and> pid' s2 = p \<and> has_exited' s2 \<and> status' s2 = 0 \<and>
           running os s2 = (Returned (Flag False), s2) \<and>
           wait os s2 = (Returned Self, s2)"
  using assms
  by (simp add: Let_def reset_def set_pid_def notifyAll_def has_pid_def running_def
      wait_def wait_as_def ensure_pid_def wait'_def)

text \<open>C9, witness: a watcher for pid 5 is reset and then given pid 9.\<close>

theorem set_pid_after_reset_witness:
  "(0::int) < 9 \<and>
   set_pid 9 (snd (reset (PIDWatcher_pid 5))) =
     (Returned Self,
      \<lparr>wait_exit' = True, pid' = 9, status' = 0, has_exited' = True,
       events = [NotifyAll], waiting = [], woken = []\<rparr>) \<and>
   running os_alive (snd (set_pid 9 (snd (reset (PIDWatcher_pid 5))))) =
     (Returned (Flag False), snd (set_pid 9 (snd (reset (PIDWatcher_pid 5))))) \<and>
   wait os_alive (snd (set_pid 9 (snd (reset (PIDWatcher_pid 5))))) =
     (Returned Self, snd (set_pid 9 (snd (reset (PIDWatcher_pid 5)))))"
proof -
  have h: "(0::int) < 9"
    by simp
  have val: "set_pid 9 (snd (reset (PIDWatcher_pid 5))) =
     (Returned Self,
      \<lparr>wait_exit' = True, pid' = 9, status' = 0, has_exited' = True,
       events = [NotifyAll], waiting = [], woken = []\<rparr>)"
    by (simp add: PIDWatcher_pid_def reset_def set_pid_def notifyAll_def has_pid_def)
  from set_pid_after_reset [OF h, of "PIDWatcher_pid 5" os_alive]
  have "running os_alive (snd (set_pid 9 (snd (reset (PIDWatcher_pid 5))))) =
     (Returned (Flag False), snd (set_pid 9 (snd (reset (PIDWatcher_pid 5)))))"
   and "wait os_alive (snd (set_pid 9 (snd (reset (PIDWatcher_pid 5))))) =
     (Returned Self, snd (set_pid 9 (snd (reset (PIDWatcher_pid 5)))))"
    by (simp_all only: Let_def)
  with h val show ?thesis
    by blast
qed

subsection \<open>C10: the constructor takes any pid\<close>

text \<open>
  C10. The constructor \<^verbatim>\<open>PIDWatcher(pid_t)\<close> is a total function without an error
  result, and for \<open>p \<le> 0\<close> it stores \<open>p\<close>, where \<^verbatim>\<open>set_pid(p)\<close> throws. The watcher it
  builds has no pid in the sense of \<^verbatim>\<open>has_pid()\<close>, and every member function treats it
  as it treats the empty watcher: the outcome of the call is the same, and so is the
  state after it, except that the stored \<open>p\<close> stays in place of 0 unless the call assigns
  or resets the pid. The destructor does not wait.
\<close>

theorem PIDWatcher_pid_unchecked:
  assumes "p \<le> 0"
  shows "PIDWatcher_pid p = PIDWatcher_empty\<lparr>pid' := p\<rparr> \<and>
         pid' (PIDWatcher_pid p) = p \<and>
         \<not> has_pid (PIDWatcher_pid p) \<and>
         set_pid p PIDWatcher_empty = (Threw (Invalid_PID p), PIDWatcher_empty) \<and>
         fst (call m os (PIDWatcher_pid p)) = fst (call m os PIDWatcher_empty) \<and>
         snd (call m os (PIDWatcher_pid p)) =
           (if is_reset (Call m os) \<or> assigns (Call m os) then snd (call m os PIDWatcher_empty)
            else (snd (call m os PIDWatcher_empty))\<lparr>pid' := p\<rparr>) \<and>
         destroy os (PIDWatcher_pid p) = (Returned Void, PIDWatcher_pid p)"
proof -
  have ctor: "PIDWatcher_pid p = PIDWatcher_empty\<lparr>pid' := p\<rparr>"
    by (simp add: ctor_defs)
  have un: "\<not> has_pid PIDWatcher_empty"
    by (simp add: has_pid_def PIDWatcher_empty_def)
  have unp: "\<not> has_pid (PIDWatcher_pid p)"
    using assms by (simp add: has_pid_def PIDWatcher_pid_def)
  have thrown: "set_pid p PIDWatcher_empty = (Threw (Invalid_PID p), PIDWatcher_empty)"
    using assms by (simp add: set_pid_def)
  have gone: "destroy os (PIDWatcher_pid p) = (Returned Void, PIDWatcher_pid p)"
    using unp by (simp add: destroy_def)
  have stored: "pid' (PIDWatcher_pid p) = p"
    by (simp add: PIDWatcher_pid_def)
  from call_unassigned_alike [OF assms un, of m os] ctor stored unp thrown gone show ?thesis
    by simp
qed

text \<open>C10, witness: \<^verbatim>\<open>PIDWatcher(-4)\<close>, on which \<^verbatim>\<open>get_pid()\<close> suspends.\<close>

theorem PIDWatcher_pid_unchecked_witness:
  "(- 4::int) \<le> 0 \<and> pid' (PIDWatcher_pid (- 4)) = - 4 \<and>
   \<not> has_pid (PIDWatcher_pid (- 4)) \<and>
   set_pid (- 4) PIDWatcher_empty = (Threw (Invalid_PID (- 4)), PIDWatcher_empty) \<and>
   fst (call M_get_pid os_alive (PIDWatcher_pid (- 4))) = Blocked In_get_pid \<and>
   destroy os_alive (PIDWatcher_pid (- 4)) = (Returned Void, PIDWatcher_pid (- 4))"
proof -
  have h: "(- 4::int) \<le> 0"
    by simp
  have e: "fst (call M_get_pid os_alive PIDWatcher_empty) = Blocked In_get_pid"
    by (simp add: PIDWatcher_empty_def has_pid_def member_defs)
  have p: "pid' (PIDWatcher_pid (- 4)) = - 4"
    by (simp add: PIDWatcher_pid_def)
  note t = PIDWatcher_pid_unchecked [OF h, of M_get_pid os_alive]
  from t have a: "\<not> has_pid (PIDWatcher_pid (- 4))"
    by blast
  from t have b: "set_pid (- 4) PIDWatcher_empty = (Threw (Invalid_PID (- 4)), PIDWatcher_empty)"
    by blast
  from t have "fst (call M_get_pid os_alive (PIDWatcher_pid (- 4))) =
      fst (call M_get_pid os_alive PIDWatcher_empty)"
    by blast
  from this e have c: "fst (call M_get_pid os_alive (PIDWatcher_pid (- 4))) = Blocked In_get_pid"
    by (rule trans)
  from t have d: "destroy os_alive (PIDWatcher_pid (- 4)) = (Returned Void, PIDWatcher_pid (- 4))"
    by blast
  from h p a b c d show ?thesis
    by blast
qed

end
